theory Spec2Isabelle
  imports Complex_Main "HOL-Library.Sublist"
begin

section \<open>The recycling game: data model\<close>

text \<open>
  The component \<^verbatim>\<open>ReciclajeJuegoComponent\<close> (reciclaje-juego.component.ts) is embedded
  as a record of its game-relevant fields and one function per method. JavaScript numbers
  are idealised as real numbers; the only place where the code divides, the rescaling of a
  picked item, keeps the IEEE outcome of a division by zero as a value of its own.
  Rendering-only members (camera, renderer, orbit controls, sounds, the two menu toggles)
  carry no game state and are left out. The fields \<^verbatim>\<open>object\<close>, \<^verbatim>\<open>type\<close>, \<^verbatim>\<open>baseScale\<close> of
  the two interfaces and the fields of a three.js object carry a prefix (\<open>item_\<close>, \<open>bin_\<close>,
  \<open>obj_\<close>), since the fields of all records share one name space.
\<close>

datatype TrashType = organico | reciclable | general

datatype GameState = playing | win | lose

datatype Vector3 = Vector3 (vx: real) (vy: real) (vz: real)

text \<open>
  A JavaScript number that may have left the finite range: \<open>NonFinite\<close> stands for
  \<^verbatim>\<open>Infinity\<close>, \<^verbatim>\<open>-Infinity\<close> and \<^verbatim>\<open>NaN\<close>, the results of dividing by zero.
\<close>

datatype number = Finite real | NonFinite

definition js_div :: "real \<Rightarrow> real \<Rightarrow> number" where
  "js_div a b = (if b = 0 then NonFinite else Finite (a / b))"

type_synonym obj_id = nat

text \<open>The part of a \<^verbatim>\<open>THREE.Object3D\<close> that the game reads or writes.\<close>

record Object3D =
  obj_name :: string
  obj_parent :: "obj_id option"
  obj_position :: Vector3
  obj_rotation :: Vector3
  obj_scale :: "number \<times> number \<times> number"

type_synonym scene_graph = "obj_id \<Rightarrow> Object3D"

text \<open>
  What the game asks of the three.js library: world position and world scale of an
  object, the traversal order of a subtree, and the effect of advancing the animation
  mixer (given the paused flag of the walk action). They are parameters of the model.
\<close>

record Three =
  getWorldPosition :: "scene_graph \<Rightarrow> obj_id \<Rightarrow> Vector3"
  getWorldScale :: "scene_graph \<Rightarrow> obj_id \<Rightarrow> Vector3"
  traverse :: "scene_graph \<Rightarrow> obj_id \<Rightarrow> obj_id list"
  mixerUpdate :: "real \<Rightarrow> bool option \<Rightarrow> scene_graph \<Rightarrow> scene_graph"

text \<open>
  \<^verbatim>\<open>interface TrashItem\<close> and \<^verbatim>\<open>interface Bin\<close>. Trash items are compared by reference
  (\<^verbatim>\<open>t !== nearestTrash\<close>), so the floor list and the carry slot hold references into a
  table of items.
\<close>

type_synonym item_ref = nat

record TrashItem =
  item_object :: obj_id
  item_type :: TrashType
  item_baseScale :: real
  item_labelSprite :: "obj_id option"

record Bin =
  bin_object :: obj_id
  bin_type :: TrashType

text \<open>
  The HUD texts, one constructor per string the component assigns to \<^verbatim>\<open>hudMessage\<close>;
  the arguments are the values interpolated into the template.
\<close>

datatype HudMessage =
    NoMessage              \<comment> \<open>the initial empty string\<close>
  | PickedUp TrashType     \<comment> \<open>Recogiste basura (type). ...\<close>
  | NoTrashNearby          \<comment> \<open>No hay basura cerca para recoger.\<close>
  | NoBinNearby            \<comment> \<open>No hay ningun contenedor cerca. ...\<close>
  | CorrectDeposit int     \<comment> \<open>Bien! +1 punto. Puntos: score\<close>
  | WrongDeposit int       \<comment> \<open>Contenedor incorrecto. -1 punto. Puntos: score\<close>
  | WinMessage             \<comment> \<open>Excelente! Clasificaste bien la basura.\<close>
  | LoseMessage            \<comment> \<open>Has reciclado mal demasiadas veces.\<close>

record ReciclajeJuego =
  scene :: obj_id
  objects :: scene_graph
  player :: "obj_id option"          \<comment> \<open>unset until the player model has loaded\<close>
  playerMixer :: bool                \<comment> \<open>whether the mixer has been created\<close>
  walkAction :: "bool option"        \<comment> \<open>the \<^verbatim>\<open>paused\<close> flag of the walk action, if any\<close>
  moveForward :: real
  turn :: real
  items :: "item_ref \<Rightarrow> TrashItem"
  trashItems :: "item_ref list"
  bins :: "Bin list"
  carryingItem :: "item_ref option"
  recycledCount :: "TrashType \<Rightarrow> int"
  score :: int
  gameState :: GameState
  showWinMenu :: bool
  showLoseMenu :: bool
  hudMessage :: HudMessage

definition pickupDistance :: real where
  "pickupDistance = 40"

definition binDistance :: real where
  "binDistance = 70"

section \<open>Vectors and scene-graph primitives\<close>

definition distanceToSquared :: "Vector3 \<Rightarrow> Vector3 \<Rightarrow> real" where
  "distanceToSquared a b =
     (vx a - vx b) * (vx a - vx b) + (vy a - vy b) * (vy a - vy b)
       + (vz a - vz b) * (vz a - vz b)"

definition distanceTo :: "Vector3 \<Rightarrow> Vector3 \<Rightarrow> real" where
  "distanceTo a b = sqrt (distanceToSquared a b)"

definition addV :: "Vector3 \<Rightarrow> Vector3 \<Rightarrow> Vector3" where
  "addV a b = Vector3 (vx a + vx b) (vy a + vy b) (vz a + vz b)"

definition multiplyScalar :: "Vector3 \<Rightarrow> real \<Rightarrow> Vector3" where
  "multiplyScalar a k = Vector3 (vx a * k) (vy a * k) (vz a * k)"

text \<open>\<^verbatim>\<open>v.applyAxisAngle(new Vector3(0, 1, 0), angle)\<close>: rotation about the Y axis.\<close>

definition applyAxisAngleY :: "Vector3 \<Rightarrow> real \<Rightarrow> Vector3" where
  "applyAxisAngleY v angle =
     Vector3 (vx v * cos angle + vz v * sin angle) (vy v)
             (vz v * cos angle - vx v * sin angle)"

text \<open>A mutation of one object of the scene graph: \<open>f\<close> is applied to object \<open>i\<close>.\<close>

definition modify :: "scene_graph \<Rightarrow> obj_id \<Rightarrow> (Object3D \<Rightarrow> Object3D) \<Rightarrow> scene_graph" where
  "modify g i f = g(i := f (g i))"

text \<open>
  \<^verbatim>\<open>anchor.add(child)\<close>: three.js refuses to add an object to itself; otherwise the child
  leaves its old parent and hangs under the anchor.
\<close>

definition add_child :: "scene_graph \<Rightarrow> obj_id \<Rightarrow> obj_id \<Rightarrow> scene_graph" where
  "add_child g anchor child =
     (if child = anchor then g else modify g child (\<lambda>x. x\<lparr>obj_parent := Some anchor\<rparr>))"

text \<open>\<^verbatim>\<open>child.parent?.remove(child)\<close>: afterwards the child has no parent.\<close>

definition detach :: "scene_graph \<Rightarrow> obj_id \<Rightarrow> scene_graph" where
  "detach g child = modify g child (\<lambda>x. x\<lparr>obj_parent := None\<rparr>)"

text \<open>\<^verbatim>\<open>String.prototype.toLowerCase\<close> on the ASCII letters; other bytes are kept.\<close>

definition lowerChar :: "char \<Rightarrow> char" where
  "lowerChar c =
     (case map_of (zip ''ABCDEFGHIJKLMNOPQRSTUVWXYZ'' ''abcdefghijklmnopqrstuvwxyz'') c of
        Some l \<Rightarrow> l
      | None \<Rightarrow> c)"

definition toLowerCase :: "string \<Rightarrow> string" where
  "toLowerCase str = map lowerChar str"

section \<open>The proximity queries\<close>

text \<open>
  The loop shared by \<^verbatim>\<open>findNearestTrash\<close> and \<^verbatim>\<open>findNearestBin\<close>: \<open>nearest\<close> and
  \<open>minDist\<close> are the two loop variables, \<open>d\<close> gives the distance of a candidate.
\<close>

fun scanNearest :: "('a \<Rightarrow> real) \<Rightarrow> 'a list \<Rightarrow> 'a option \<Rightarrow> real \<Rightarrow> 'a option" where
  "scanNearest d [] nearest minDist = nearest"
| "scanNearest d (c # cs) nearest minDist =
     (if d c < minDist then scanNearest d cs (Some c) (d c)
      else scanNearest d cs nearest minDist)"

definition trashDist :: "Three \<Rightarrow> ReciclajeJuego \<Rightarrow> Vector3 \<Rightarrow> item_ref \<Rightarrow> real" where
  "trashDist lib s playerPos r =
     distanceTo (getWorldPosition lib (objects s) (item_object (items s r))) playerPos"

definition binDist :: "Three \<Rightarrow> ReciclajeJuego \<Rightarrow> Vector3 \<Rightarrow> Bin \<Rightarrow> real" where
  "binDist lib s playerPos b =
     distanceTo (getWorldPosition lib (objects s) (bin_object b)) playerPos"

definition findNearestTrash :: "Three \<Rightarrow> ReciclajeJuego \<Rightarrow> Vector3 \<Rightarrow> real \<Rightarrow> item_ref option" where
  "findNearestTrash lib s playerPos maxDistance =
     scanNearest (trashDist lib s playerPos) (trashItems s) None maxDistance"

definition findNearestBin :: "Three \<Rightarrow> ReciclajeJuego \<Rightarrow> Vector3 \<Rightarrow> real \<Rightarrow> Bin option" where
  "findNearestBin lib s playerPos maxDistance =
     scanNearest (binDist lib s playerPos) (bins s) None maxDistance"

section \<open>Game progress and interaction\<close>

definition checkGameState :: "ReciclajeJuego \<Rightarrow> ReciclajeJuego" where
  "checkGameState s =
     (if gameState s \<noteq> playing then s
      else
        let s1 = (if 5 \<le> score s
                  then s\<lparr>gameState := win, showWinMenu := True, hudMessage := WinMessage\<rparr>
                  else if score s \<le> - 2
                  then s\<lparr>gameState := lose, showLoseMenu := True, hudMessage := LoseMessage\<rparr>
                  else s)
        in if gameState s1 \<noteq> playing
           then s1\<lparr>moveForward := 0, turn := 0,
                   walkAction := map_option (\<lambda>_. True) (walkAction s1)\<rparr>
           else s1)"

definition getHandAnchor :: "Three \<Rightarrow> ReciclajeJuego \<Rightarrow> obj_id" where
  "getHandAnchor lib s =
     (case player s of
        None \<Rightarrow> scene s
      | Some p \<Rightarrow>
          (case find (\<lambda>child. obj_name (objects s child) \<noteq> []
                         \<and> sublist ''hand'' (toLowerCase (obj_name (objects s child))))
                     (traverse lib (objects s) p) of
             Some hand \<Rightarrow> hand
           | None \<Rightarrow> p))"

definition tryInteract :: "Three \<Rightarrow> ReciclajeJuego \<Rightarrow> ReciclajeJuego" where
  "tryInteract lib s =
     (case player s of
        None \<Rightarrow> s
      | Some p \<Rightarrow>
          if gameState s \<noteq> playing then s
          else
            let playerPos = getWorldPosition lib (objects s) p in
            (case carryingItem s of
               None \<Rightarrow>
                 (case findNearestTrash lib s playerPos pickupDistance of
                    Some nearestTrash \<Rightarrow>
                      let s1 = s\<lparr>carryingItem := Some nearestTrash,
                                 trashItems := filter (\<lambda>t. t \<noteq> nearestTrash) (trashItems s)\<rparr>;
                          handAnchor = getHandAnchor lib s1;
                          handWorldScale = getWorldScale lib (objects s1) handAnchor;
                          b = item_baseScale (items s1 nearestTrash);
                          ob = item_object (items s1 nearestTrash);
                          g1 = modify (objects s1) ob
                                 (\<lambda>x. x\<lparr>obj_scale := (js_div b (vx handWorldScale),
                                                        js_div b (vy handWorldScale),
                                                        js_div b (vz handWorldScale))\<rparr>);
                          g2 = add_child g1 handAnchor ob;
                          g3 = modify g2 ob (\<lambda>x. x\<lparr>obj_position := Vector3 0.1 0.3 0.2\<rparr>);
                          g4 = modify g3 ob (\<lambda>x. x\<lparr>obj_rotation := Vector3 0 0 0\<rparr>)
                      in s1\<lparr>objects := g4,
                            hudMessage := PickedUp (item_type (items s1 nearestTrash))\<rparr>
                  | None \<Rightarrow> s\<lparr>hudMessage := NoTrashNearby\<rparr>)
             | Some carried \<Rightarrow>
                 (case findNearestBin lib s playerPos binDistance of
                    None \<Rightarrow> s\<lparr>hudMessage := NoBinNearby\<rparr>
                  | Some nearestBin \<Rightarrow>
                      if bin_type nearestBin = item_type (items s carried)
                      then
                        let s1 = s\<lparr>recycledCount := (recycledCount s)
                                      (bin_type nearestBin :=
                                         recycledCount s (bin_type nearestBin) + 1),
                                   score := score s + 1\<rparr>;
                            s2 = s1\<lparr>objects := detach (objects s1) (item_object (items s1 carried)),
                                    carryingItem := None\<rparr>;
                            s3 = s2\<lparr>hudMessage := CorrectDeposit (score s2)\<rparr>
                        in checkGameState s3
                      else
                        let s1 = s\<lparr>score := score s - 1\<rparr>;
                            s2 = s1\<lparr>objects := detach (objects s1) (item_object (items s1 carried)),
                                    carryingItem := None\<rparr>;
                            s3 = s2\<lparr>hudMessage := WrongDeposit (score s2)\<rparr>
                        in checkGameState s3)))"

section \<open>Input handlers and the frame loop\<close>

definition onKeyDown :: "Three \<Rightarrow> string \<Rightarrow> ReciclajeJuego \<Rightarrow> ReciclajeJuego" where
  "onKeyDown lib k s =
     (let key = toLowerCase k in
      if gameState s \<noteq> playing then s
      else if key = ''w'' \<or> key = ''arrowup'' then s\<lparr>moveForward := 1\<rparr>
      else if key = ''s'' \<or> key = ''arrowdown'' then s\<lparr>moveForward := - 1\<rparr>
      else if key = ''a'' \<or> key = ''arrowleft'' then s\<lparr>turn := 1\<rparr>
      else if key = ''d'' \<or> key = ''arrowright'' then s\<lparr>turn := - 1\<rparr>
      else if key = ''e'' then tryInteract lib s
      else s)"

definition onKeyUp :: "string \<Rightarrow> ReciclajeJuego \<Rightarrow> ReciclajeJuego" where
  "onKeyUp k s =
     (let key = toLowerCase k in
      if gameState s \<noteq> playing then s
      else if key = ''w'' \<or> key = ''arrowup'' \<or> key = ''s'' \<or> key = ''arrowdown''
      then s\<lparr>moveForward := 0\<rparr>
      else if key = ''a'' \<or> key = ''arrowleft'' \<or> key = ''d'' \<or> key = ''arrowright''
      then s\<lparr>turn := 0\<rparr>
      else s)"

text \<open>
  One frame of \<^verbatim>\<open>animate\<close>, with \<open>delta\<close> the value of \<^verbatim>\<open>clock.getDelta()\<close>. The camera
  follow and the render call do not touch the game state.
\<close>

definition animate :: "Three \<Rightarrow> real \<Rightarrow> ReciclajeJuego \<Rightarrow> ReciclajeJuego" where
  "animate lib delta s =
     (let s1 = (if playerMixer s \<and> gameState s = playing
                then s\<lparr>objects := mixerUpdate lib delta (walkAction s) (objects s)\<rparr>
                else s)
      in case player s1 of
           None \<Rightarrow> s1
         | Some p \<Rightarrow>
             if gameState s1 \<noteq> playing then s1
             else
               let speed = 100;
                   rotationSpeed = 2.5;
                   ry = vy (obj_rotation (objects s1 p)) - turn s1 * rotationSpeed * delta;
                   g1 = modify (objects s1) p
                          (\<lambda>x. x\<lparr>obj_rotation :=
                                   Vector3 (vx (obj_rotation x)) ry (vz (obj_rotation x))\<rparr>);
                   forward = multiplyScalar (applyAxisAngleY (Vector3 0 0 1) ry)
                               (moveForward s1 * speed * delta);
                   g2 = modify g1 p
                          (\<lambda>x. x\<lparr>obj_position := addV (obj_position x) forward\<rparr>);
                   isMoving = (\<bar>moveForward s1\<bar> > 0.001 \<or> \<bar>turn s1\<bar> > 0.001)
               in s1\<lparr>objects := g2,
                     walkAction := map_option (\<lambda>_. \<not> isMoving) (walkAction s1)\<rparr>)"

text \<open>
  The events that drive the component: the two key handlers, a direct call of
  \<^verbatim>\<open>tryInteract\<close>, and one animation frame with its elapsed time.
\<close>

datatype event = KeyDown string | KeyUp string | Interact | Tick real

fun step :: "Three \<Rightarrow> ReciclajeJuego \<Rightarrow> event \<Rightarrow> ReciclajeJuego" where
  "step lib s (KeyDown k) = onKeyDown lib k s"
| "step lib s (KeyUp k) = onKeyUp k s"
| "step lib s Interact = tryInteract lib s"
| "step lib s (Tick delta) = animate lib delta s"

fun run :: "Three \<Rightarrow> ReciclajeJuego \<Rightarrow> event list \<Rightarrow> ReciclajeJuego" where
  "run lib s [] = s"
| "run lib s (e # es) = run lib (step lib s e) es"

section \<open>Auxiliary notions for the statements\<close>

text \<open>
  \<open>firstNearest d cs m r\<close>: in the list \<open>cs\<close>, \<open>r\<close> is nearer than \<open>m\<close>, strictly nearer
  than every candidate before it and at least as near as every candidate after it.
\<close>

definition firstNearest :: "('a \<Rightarrow> real) \<Rightarrow> 'a list \<Rightarrow> real \<Rightarrow> 'a \<Rightarrow> bool" where
  "firstNearest d cs m r \<longleftrightarrow>
     (\<exists>pre post. cs = pre @ r # post \<and> d r < m
        \<and> (\<forall>c\<in>set pre. d r < d c) \<and> (\<forall>c\<in>set post. d r \<le> d c))"

text \<open>
  Whether an event deposits the carried item, read off the guards of \<^verbatim>\<open>tryInteract\<close>:
  \<open>Some True\<close> for a deposit in a bin of the item's category, \<open>Some False\<close> for a deposit
  in another bin, \<open>None\<close> when nothing is deposited.
\<close>

definition depositOutcome :: "Three \<Rightarrow> ReciclajeJuego \<Rightarrow> bool option" where
  "depositOutcome lib s =
     (case player s of
        None \<Rightarrow> None
      | Some p \<Rightarrow>
          if gameState s \<noteq> playing then None
          else
            (case carryingItem s of
               None \<Rightarrow> None
             | Some carried \<Rightarrow>
                 (case findNearestBin lib s (getWorldPosition lib (objects s) p) binDistance of
                    None \<Rightarrow> None
                  | Some nearestBin \<Rightarrow>
                      Some (bin_type nearestBin = item_type (items s carried)))))"

fun eventOutcome :: "Three \<Rightarrow> ReciclajeJuego \<Rightarrow> event \<Rightarrow> bool option" where
  "eventOutcome lib s (KeyDown k) =
     (if toLowerCase k = ''e'' then depositOutcome lib s else None)"
| "eventOutcome lib s (KeyUp k) = None"
| "eventOutcome lib s Interact = depositOutcome lib s"
| "eventOutcome lib s (Tick delta) = None"

text \<open>The outcomes of the deposits that happen along a run, in order.\<close>

fun depositLog :: "Three \<Rightarrow> ReciclajeJuego \<Rightarrow> event list \<Rightarrow> bool list" where
  "depositLog lib s [] = []"
| "depositLog lib s (e # es) =
     (case eventOutcome lib s e of None \<Rightarrow> [] | Some ok \<Rightarrow> [ok])
       @ depositLog lib (step lib s e) es"

text \<open>The game state that \<^verbatim>\<open>checkGameState\<close> assigns to a score.\<close>

definition verdict :: "int \<Rightarrow> GameState" where
  "verdict n = (if 5 \<le> n then win else if n \<le> - 2 then lose else playing)"

text \<open>The trash items the player can still get hold of: those on the floor and the carried one.\<close>

definition held :: "ReciclajeJuego \<Rightarrow> item_ref set" where
  "held s = set (trashItems s) \<union> set_option (carryingItem s)"

definition registry_ok :: "ReciclajeJuego \<Rightarrow> bool" where
  "registry_ok s \<longleftrightarrow>
     distinct (trashItems s) \<and> (\<forall>c. carryingItem s = Some c \<longrightarrow> c \<notin> set (trashItems s))"

definition score_ok :: "ReciclajeJuego \<Rightarrow> bool" where
  "score_ok s \<longleftrightarrow>
     - 2 \<le> score s \<and> score s \<le> 5
     \<and> (gameState s = playing \<longrightarrow> - 2 < score s \<and> score s < 5)"

section \<open>A small scene for evaluating the definitions\<close>

text \<open>
  World positions are the local positions (everything hangs directly under the scene,
  object 0), every anchor has world scale 30, the player (object 2) has one bone
  (object 3), and the mixer moves nothing. The player stands 50 units in front of the
  bin for general waste; seven items lie within reach, the first two equally near.
\<close>

definition exampleLib :: Three where
  "exampleLib = \<lparr>getWorldPosition = (\<lambda>g i. obj_position (g i)),
                  getWorldScale = (\<lambda>g i. Vector3 30 30 30),
                  traverse = (\<lambda>g i. [i, i + 1]),
                  mixerUpdate = (\<lambda>delta paused g. g)\<rparr>"

definition exampleObject :: "string \<Rightarrow> real \<Rightarrow> real \<Rightarrow> Object3D" where
  "exampleObject nm x z =
     \<lparr>obj_name = nm, obj_parent = Some 0, obj_position = Vector3 x 0 z,
      obj_rotation = Vector3 0 0 0, obj_scale = (Finite 1, Finite 1, Finite 1)\<rparr>"

definition exampleObjects :: scene_graph where
  "exampleObjects =
     (\<lambda>i. exampleObject [] 0 0)
       (2 := exampleObject ''Armature'' 0 150,
        3 := (exampleObject ''RightHand'' 0 0)\<lparr>obj_parent := Some 2\<rparr>,
        20 := exampleObject ''BOLSA_DE_PAPAS'' 10 150,
        21 := exampleObject ''BOLSA_DE_CHETOS'' 0 160,
        22 := exampleObject ''BOLSA_DE_CHOCLITOS'' 20 150,
        23 := exampleObject ''BOLSA_DE_MADURITOS'' 0 170,
        24 := exampleObject ''BOLSA_DE_PAPAS'' 30 150,
        25 := exampleObject ''BANANA'' 0 115,
        26 := exampleObject ''CAFE'' 38 150,
        30 := exampleObject [] (- 150) 200,
        31 := exampleObject [] 0 200,
        32 := exampleObject [] 150 200)"

definition exampleItems :: "item_ref \<Rightarrow> TrashItem" where
  "exampleItems =
     (\<lambda>r. \<lparr>item_object = r + 10, item_type = general, item_baseScale = 3,
            item_labelSprite = None\<rparr>)
       (15 := \<lparr>item_object = 25, item_type = organico, item_baseScale = 3,
               item_labelSprite = None\<rparr>,
        16 := \<lparr>item_object = 26, item_type = reciclable, item_baseScale = 3,
               item_labelSprite = None\<rparr>)"

definition exampleGame :: ReciclajeJuego where
  "exampleGame =
     \<lparr>scene = 0, objects = exampleObjects, player = Some 2, playerMixer = True,
      walkAction = Some True, moveForward = 0, turn = 0, items = exampleItems,
      trashItems = [10, 11, 12, 13, 14, 15, 16],
      bins = [\<lparr>bin_object = 30, bin_type = organico\<rparr>,
              \<lparr>bin_object = 31, bin_type = general\<rparr>,
              \<lparr>bin_object = 32, bin_type = reciclable\<rparr>],
      carryingItem = None, recycledCount = (\<lambda>t. 0), score = 0, gameState = playing,
      showWinMenu = False, showLoseMenu = False, hudMessage = NoMessage\<rparr>"

section \<open>Facts about the proximity scan\<close>

lemma scanNearest_None:
  "scanNearest d cs nearest m = None \<longleftrightarrow> nearest = None \<and> (\<forall>c\<in>set cs. m \<le> d c)"
  by (induction cs arbitrary: nearest m) (auto simp: not_less)

lemma firstNearest_here:
  "d c < m \<Longrightarrow> \<forall>c'\<in>set cs. d c \<le> d c' \<Longrightarrow> firstNearest d (c # cs) m c"
  unfolding firstNearest_def
  by (rule exI [of _ "[]"], rule exI [of _ cs]) simp

lemma firstNearest_later:
  assumes "firstNearest d cs m' r" and "m' \<le> d c" and "m' \<le> m"
  shows "firstNearest d (c # cs) m r"
proof -
  from assms(1) obtain pre post where p: "cs = pre @ r # post" "d r < m'"
    "\<forall>c\<in>set pre. d r < d c" "\<forall>c\<in>set post. d r \<le> d c"
    unfolding firstNearest_def by blast
  have "c # cs = (c # pre) @ r # post" using p(1) by simp
  moreover have "d r < m" using p(2) assms(3) by simp
  moreover have "\<forall>c'\<in>set (c # pre). d r < d c'" using p(2,3) assms(2) by simp
  ultimately show ?thesis unfolding firstNearest_def using p(4) by blast
qed

lemma scanNearest_Some:
  "scanNearest d cs nearest m = Some r \<Longrightarrow>
     (nearest = Some r \<and> (\<forall>c\<in>set cs. m \<le> d c)) \<or> firstNearest d cs m r"
proof (induction cs arbitrary: nearest m)
  case Nil
  then show ?case by simp
next
  case (Cons c cs)
  show ?case
  proof (cases "d c < m")
    case True
    with Cons.prems have "scanNearest d cs (Some c) (d c) = Some r" by simp
    from Cons.IH [OF this]
    have "(c = r \<and> (\<forall>c'\<in>set cs. d c \<le> d c')) \<or> firstNearest d cs (d c) r" by simp
    then show ?thesis
    proof
      assume "c = r \<and> (\<forall>c'\<in>set cs. d c \<le> d c')"
      then have "c = r" and "\<forall>c'\<in>set cs. d c \<le> d c'" by blast+
      with True firstNearest_here [of d c m cs] show ?thesis by blast
    next
      assume "firstNearest d cs (d c) r"
      from firstNearest_later [OF this, of c m] True show ?thesis by simp
    qed
  next
    case False
    with Cons.prems have "scanNearest d cs nearest m = Some r" by simp
    from Cons.IH [OF this] show ?thesis
    proof
      assume "nearest = Some r \<and> (\<forall>c\<in>set cs. m \<le> d c)"
      with False show ?thesis by simp
    next
      assume "firstNearest d cs m r"
      from firstNearest_later [OF this, of c m] False show ?thesis by simp
    qed
  qed
qed

lemma scanNearest_first:
  assumes "scanNearest d cs None m = Some r"
  shows "r \<in> set cs \<and> d r < m \<and> (\<forall>c\<in>set cs. d r \<le> d c)
         \<and> (\<exists>pre post. cs = pre @ r # post \<and> (\<forall>c\<in>set pre. d r < d c))"
proof -
  from scanNearest_Some [OF assms] have "firstNearest d cs m r" by simp
  then obtain pre post where p: "cs = pre @ r # post" "d r < m"
    "\<forall>c\<in>set pre. d r < d c" "\<forall>c\<in>set post. d r \<le> d c"
    unfolding firstNearest_def by blast
  have "r \<in> set cs" using p(1) by simp
  moreover have "\<forall>c\<in>set cs. d r \<le> d c"
  proof
    fix c assume "c \<in> set cs"
    then have "c \<in> set pre \<or> c = r \<or> c \<in> set post" using p(1) by auto
    then show "d r \<le> d c" using p(3,4) by (auto simp: less_imp_le)
  qed
  ultimately show ?thesis using p(1,2,3) by blast
qed

lemma sqrt_less_iff_sq: "0 < r \<Longrightarrow> sqrt x < r \<longleftrightarrow> x < r * r"
  using real_sqrt_less_iff [of x "r * r"] by simp

lemma distanceTo_less:
  "0 < r \<Longrightarrow> distanceTo a b < r \<longleftrightarrow> distanceToSquared a b < r * r"
  by (simp add: distanceTo_def sqrt_less_iff_sq)

lemma distanceTo_less_distanceTo:
  "distanceTo a b < distanceTo c d \<longleftrightarrow> distanceToSquared a b < distanceToSquared c d"
  by (simp add: distanceTo_def)

lemma modify_apply: "modify g i f j = (if j = i then f (g i) else g j)"
  by (simp add: modify_def)

lemma example_lower:
  "toLowerCase ''Armature'' = ''armature''" "toLowerCase ''RightHand'' = ''righthand''"
  by (simp_all add: toLowerCase_def lowerChar_def)

lemma example_objects:
  "exampleObjects 2 = exampleObject ''Armature'' 0 150"
  "exampleObjects 3 = (exampleObject ''RightHand'' 0 0)\<lparr>obj_parent := Some 2\<rparr>"
  "exampleObjects 20 = exampleObject ''BOLSA_DE_PAPAS'' 10 150"
  "exampleObjects 21 = exampleObject ''BOLSA_DE_CHETOS'' 0 160"
  "exampleObjects 22 = exampleObject ''BOLSA_DE_CHOCLITOS'' 20 150"
  "exampleObjects 23 = exampleObject ''BOLSA_DE_MADURITOS'' 0 170"
  "exampleObjects 24 = exampleObject ''BOLSA_DE_PAPAS'' 30 150"
  "exampleObjects 25 = exampleObject ''BANANA'' 0 115"
  "exampleObjects 26 = exampleObject ''CAFE'' 38 150"
  "exampleObjects 30 = exampleObject [] (- 150) 200"
  "exampleObjects 31 = exampleObject [] 0 200"
  "exampleObjects 32 = exampleObject [] 150 200"
  by (simp_all add: exampleObjects_def)

lemma example_items:
  "exampleItems 10 = \<lparr>item_object = 20, item_type = general, item_baseScale = 3,
                       item_labelSprite = None\<rparr>"
  "exampleItems 11 = \<lparr>item_object = 21, item_type = general, item_baseScale = 3,
                       item_labelSprite = None\<rparr>"
  "exampleItems 12 = \<lparr>item_object = 22, item_type = general, item_baseScale = 3,
                       item_labelSprite = None\<rparr>"
  "exampleItems 13 = \<lparr>item_object = 23, item_type = general, item_baseScale = 3,
                       item_labelSprite = None\<rparr>"
  "exampleItems 14 = \<lparr>item_object = 24, item_type = general, item_baseScale = 3,
                       item_labelSprite = None\<rparr>"
  "exampleItems 15 = \<lparr>item_object = 25, item_type = organico, item_baseScale = 3,
                       item_labelSprite = None\<rparr>"
  "exampleItems 16 = \<lparr>item_object = 26, item_type = reciclable, item_baseScale = 3,
                       item_labelSprite = None\<rparr>"
  by (simp_all add: exampleItems_def)

lemmas example_defs =
  exampleLib_def exampleGame_def example_objects example_items exampleObject_def
  pickupDistance_def binDistance_def trashDist_def binDist_def
  distanceTo_less distanceTo_less_distanceTo distanceToSquared_def

lemmas eval_defs =
  example_defs findNearestTrash_def findNearestBin_def tryInteract_def
  depositOutcome_def getHandAnchor_def example_lower sublist_code
  add_child_def detach_def modify_apply js_div_def checkGameState_def Let_def

section \<open>Facts about the game progress and the interaction\<close>


lemma checkGameState_fields [simp]:
  "score (checkGameState s) = score s"
  "trashItems (checkGameState s) = trashItems s"
  "carryingItem (checkGameState s) = carryingItem s"
  "recycledCount (checkGameState s) = recycledCount s"
  "objects (checkGameState s) = objects s"
  "items (checkGameState s) = items s"
  "bins (checkGameState s) = bins s"
  "player (checkGameState s) = player s"
  "scene (checkGameState s) = scene s"
  by (simp_all add: checkGameState_def Let_def)

lemma checkGameState_playing:
  "gameState s = playing \<Longrightarrow> gameState (checkGameState s) = verdict (score s)"
  by (simp add: checkGameState_def verdict_def Let_def)

lemma checkGameState_freeze:
  "gameState s = playing \<Longrightarrow> gameState (checkGameState s) \<noteq> playing \<Longrightarrow>
     moveForward (checkGameState s) = 0 \<and> turn (checkGameState s) = 0
     \<and> walkAction (checkGameState s) = map_option (\<lambda>_. True) (walkAction s)"
  by (simp add: checkGameState_def Let_def split: if_splits)

lemma tryInteract_no_deposit:
  "depositOutcome lib s = None \<Longrightarrow>
     score (tryInteract lib s) = score s \<and> gameState (tryInteract lib s) = gameState s
     \<and> recycledCount (tryInteract lib s) = recycledCount s"
  by (auto simp: depositOutcome_def tryInteract_def Let_def split: option.splits if_splits)

lemma tryInteract_deposit:
  assumes "depositOutcome lib s = Some ok"
  shows "score (tryInteract lib s) = score s + (if ok then 1 else - 1)"
    and "gameState (tryInteract lib s) = verdict (score (tryInteract lib s))"
    and "carryingItem (tryInteract lib s) = None"
    and "trashItems (tryInteract lib s) = trashItems s"
    and "gameState (tryInteract lib s) \<noteq> playing \<Longrightarrow>
           moveForward (tryInteract lib s) = 0 \<and> turn (tryInteract lib s) = 0
           \<and> walkAction (tryInteract lib s) = map_option (\<lambda>_. True) (walkAction s)"
  using assms
  by (auto simp: depositOutcome_def tryInteract_def Let_def checkGameState_playing
      checkGameState_freeze split: option.splits if_splits)

lemma step_terminal: "gameState s \<noteq> playing \<Longrightarrow> step lib s ev = s"
  by (cases ev)
    (simp_all add: onKeyDown_def onKeyUp_def tryInteract_def animate_def Let_def
      split: option.splits)

lemma run_terminal: "gameState s \<noteq> playing \<Longrightarrow> run lib s evs = s"
  by (induction evs) (simp_all add: step_terminal)


lemma findNearestTrash_mem:
  "findNearestTrash lib s pos m = Some r \<Longrightarrow> r \<in> set (trashItems s)"
  unfolding findNearestTrash_def by (drule scanNearest_first) simp

lemma findNearestBin_None_iff:
  "findNearestBin lib s pos m = None \<longleftrightarrow> (\<forall>b\<in>set (bins s). m \<le> binDist lib s pos b)"
  by (simp add: findNearestBin_def scanNearest_None)

lemma tryInteract_deposit_more:
  assumes "player s = Some p" "gameState s = playing" "carryingItem s = Some r"
    "findNearestBin lib s (getWorldPosition lib (objects s) p) binDistance = Some b"
  shows "recycledCount (tryInteract lib s) =
           (if bin_type b = item_type (items s r)
            then (recycledCount s)(item_type (items s r) :=
                   recycledCount s (item_type (items s r)) + 1)
            else recycledCount s)"
    and "objects (tryInteract lib s) = detach (objects s) (item_object (items s r))"
    and "depositOutcome lib s = Some (bin_type b = item_type (items s r))"
  using assms
  by (auto simp: depositOutcome_def tryInteract_def Let_def)

lemma tryInteract_registry:
  "(trashItems (tryInteract lib s) = trashItems s
      \<and> carryingItem (tryInteract lib s) = carryingItem s)
   \<or> (carryingItem s = None
      \<and> (\<exists>r\<in>set (trashItems s). carryingItem (tryInteract lib s) = Some r
            \<and> trashItems (tryInteract lib s) = filter (\<lambda>t. t \<noteq> r) (trashItems s)))
   \<or> (trashItems (tryInteract lib s) = trashItems s
      \<and> carryingItem (tryInteract lib s) = None)"
  by (auto simp: tryInteract_def Let_def dest: findNearestTrash_mem
      split: option.splits if_splits)

lemma step_registry:
  "(trashItems (step lib s ev) = trashItems s
      \<and> carryingItem (step lib s ev) = carryingItem s)
   \<or> (carryingItem s = None
      \<and> (\<exists>r\<in>set (trashItems s). carryingItem (step lib s ev) = Some r
            \<and> trashItems (step lib s ev) = filter (\<lambda>t. t \<noteq> r) (trashItems s)))
   \<or> (trashItems (step lib s ev) = trashItems s
      \<and> carryingItem (step lib s ev) = None)"
proof (cases ev)
  case (KeyDown k)
  show ?thesis using tryInteract_registry [of lib s]
    by (simp add: KeyDown onKeyDown_def Let_def)
next
  case (KeyUp k)
  then show ?thesis by (simp add: onKeyUp_def Let_def)
next
  case Interact
  then show ?thesis using tryInteract_registry [of lib s] by simp
next
  case (Tick delta)
  then show ?thesis by (simp add: animate_def Let_def split: option.splits)
qed

lemma step_no_deposit:
  "eventOutcome lib s ev = None \<Longrightarrow>
     score (step lib s ev) = score s \<and> gameState (step lib s ev) = gameState s
     \<and> recycledCount (step lib s ev) = recycledCount s"
proof (cases ev)
  case (KeyDown k)
  assume "eventOutcome lib s ev = None"
  then show ?thesis using tryInteract_no_deposit [of lib s]
    by (auto simp: KeyDown onKeyDown_def Let_def split: if_splits)
next
  case (KeyUp k)
  then show ?thesis by (simp add: onKeyUp_def Let_def)
next
  case Interact
  assume "eventOutcome lib s ev = None"
  then show ?thesis using tryInteract_no_deposit [of lib s] by (simp add: Interact)
next
  case (Tick delta)
  then show ?thesis by (simp add: animate_def Let_def split: option.splits)
qed

lemma step_deposit:
  "eventOutcome lib s ev = Some ok \<Longrightarrow> step lib s ev = tryInteract lib s \<and> depositOutcome lib s = Some ok \<and> gameState s = playing"
  by (cases ev) (auto simp: onKeyDown_def Let_def depositOutcome_def split: if_splits option.splits)

section \<open>Facts about runs\<close>


lemma step_held: "held (step lib s ev) \<subseteq> held s"
  using step_registry [of lib s ev] by (auto simp: held_def)

lemma run_held: "held (run lib s evs) \<subseteq> held s"
proof (induction evs arbitrary: s)
  case Nil
  show ?case by simp
next
  case (Cons e es)
  have "held (run lib (step lib s e) es) \<subseteq> held (step lib s e)" by (rule Cons.IH)
  also have "\<dots> \<subseteq> held s" by (rule step_held)
  finally show ?case by simp
qed

lemma step_registry_ok: "registry_ok s \<Longrightarrow> registry_ok (step lib s ev)"
  using step_registry [of lib s ev] by (auto simp: registry_ok_def)

lemma run_registry_ok: "registry_ok s \<Longrightarrow> registry_ok (run lib s evs)"
  by (induction evs arbitrary: s) (simp_all add: step_registry_ok)

lemma step_score_ok: "score_ok s \<Longrightarrow> score_ok (step lib s ev)"
proof (cases "eventOutcome lib s ev")
  case None
  assume "score_ok s"
  with step_no_deposit [OF None] show ?thesis by (simp add: score_ok_def)
next
  case (Some ok)
  assume a: "score_ok s"
  from step_deposit [OF Some] have st: "step lib s ev = tryInteract lib s"
    and d: "depositOutcome lib s = Some ok" and p: "gameState s = playing" by simp_all
  from a p have "- 2 < score s" "score s < 5" by (simp_all add: score_ok_def)
  with tryInteract_deposit(1,2) [OF d] show ?thesis
    by (auto simp: st score_ok_def verdict_def split: if_splits)
qed

lemma run_score_ok: "score_ok s \<Longrightarrow> score_ok (run lib s evs)"
  by (induction evs arbitrary: s) (simp_all add: step_score_ok)

lemma streak_correct:
  "gameState s = playing \<Longrightarrow> 0 \<le> score s \<Longrightarrow> score s < 5 \<Longrightarrow>
   depositLog lib s evs = replicate (nat (5 - score s)) True \<Longrightarrow>
   gameState (run lib s evs) = win \<and> score (run lib s evs) = 5"
proof (induction evs arbitrary: s)
  case Nil
  then show ?case by simp
next
  case (Cons e es)
  show ?case
  proof (cases "eventOutcome lib s e")
    case None
    from step_no_deposit [OF None] Cons.prems None
    have "gameState (step lib s e) = playing" "0 \<le> score (step lib s e)"
      "score (step lib s e) < 5"
      "depositLog lib (step lib s e) es = replicate (nat (5 - score (step lib s e))) True"
      by simp_all
    from Cons.IH [OF this] show ?thesis by simp
  next
    case (Some ok)
    from step_deposit [OF Some] have st: "step lib s e = tryInteract lib s"
      and d: "depositOutcome lib s = Some ok" by simp_all
    from Cons.prems(2,3) have "nat (5 - score s) = Suc (nat (4 - score s))" by simp
    with Cons.prems(4) Some have ok: "ok"
      and rest: "depositLog lib (step lib s e) es = replicate (nat (4 - score s)) True"
      by simp_all
    from tryInteract_deposit(1,2) [OF d] ok st
    have sc: "score (step lib s e) = score s + 1"
      and gs: "gameState (step lib s e) = verdict (score s + 1)" by simp_all
    show ?thesis
    proof (cases "score s = 4")
      case True
      with sc gs have "score (step lib s e) = 5" "gameState (step lib s e) = win"
        by (simp_all add: verdict_def)
      then show ?thesis by (simp add: run_terminal)
    next
      case False
      with Cons.prems(2,3) sc gs rest
      have "gameState (step lib s e) = playing" "0 \<le> score (step lib s e)"
        "score (step lib s e) < 5"
        "depositLog lib (step lib s e) es = replicate (nat (5 - score (step lib s e))) True"
        by (simp_all add: verdict_def)
      from Cons.IH [OF this] show ?thesis by simp
    qed
  qed
qed

lemma streak_wrong:
  "gameState s = playing \<Longrightarrow> score s \<le> 0 \<Longrightarrow> - 2 < score s \<Longrightarrow>
   depositLog lib s evs = replicate (nat (score s + 2)) False \<Longrightarrow>
   gameState (run lib s evs) = lose \<and> score (run lib s evs) = - 2"
proof (induction evs arbitrary: s)
  case Nil
  then show ?case by simp
next
  case (Cons e es)
  show ?case
  proof (cases "eventOutcome lib s e")
    case None
    from step_no_deposit [OF None] Cons.prems None
    have "gameState (step lib s e) = playing" "score (step lib s e) \<le> 0"
      "- 2 < score (step lib s e)"
      "depositLog lib (step lib s e) es = replicate (nat (score (step lib s e) + 2)) False"
      by simp_all
    from Cons.IH [OF this] show ?thesis by simp
  next
    case (Some ok)
    from step_deposit [OF Some] have st: "step lib s e = tryInteract lib s"
      and d: "depositOutcome lib s = Some ok" by simp_all
    from Cons.prems(2,3) have "nat (score s + 2) = Suc (nat (score s + 1))" by simp
    with Cons.prems(4) Some have ok: "\<not> ok"
      and rest: "depositLog lib (step lib s e) es = replicate (nat (score s + 1)) False"
      by simp_all
    from tryInteract_deposit(1,2) [OF d] ok st
    have sc: "score (step lib s e) = score s - 1"
      and gs: "gameState (step lib s e) = verdict (score s - 1)" by simp_all
    show ?thesis
    proof (cases "score s = - 1")
      case True
      with sc gs have "score (step lib s e) = - 2" "gameState (step lib s e) = lose"
        by (simp_all add: verdict_def)
      then show ?thesis by (simp add: run_terminal)
    next
      case False
      with Cons.prems(2,3) sc gs rest
      have "gameState (step lib s e) = playing" "score (step lib s e) \<le> 0"
        "- 2 < score (step lib s e)"
        "depositLog lib (step lib s e) es = replicate (nat (score (step lib s e) + 2)) False"
        by (simp_all add: verdict_def)
      from Cons.IH [OF this] show ?thesis by simp
    qed
  qed
qed

lemma distanceTo_ge:
  "0 < r \<Longrightarrow> r \<le> distanceTo a b \<longleftrightarrow> r * r \<le> distanceToSquared a b"
  using distanceTo_less [of r a b] by (simp add: not_less [symmetric])

lemma getHandAnchor_registry [simp]:
  "getHandAnchor lib (s\<lparr>carryingItem := c, trashItems := ts\<rparr>) = getHandAnchor lib s"
  by (simp add: getHandAnchor_def split: option.splits)

text \<open>
  What a successful pickup writes: the item goes to the carry slot, its object gets the
  quotients of the base scale by the hand anchor's world scale as local scale, and it
  hangs under the anchor.
\<close>

lemma pickup_sets_local_scale:
  assumes "player s = Some p" and "gameState s = playing" and "carryingItem s = None"
    and "findNearestTrash lib s (getWorldPosition lib (objects s) p) pickupDistance = Some r"
  shows "carryingItem (tryInteract lib s) = Some r"
    and "obj_scale (objects (tryInteract lib s) (item_object (items s r)))
           = (js_div (item_baseScale (items s r))
                (vx (getWorldScale lib (objects s) (getHandAnchor lib s))),
              js_div (item_baseScale (items s r))
                (vy (getWorldScale lib (objects s) (getHandAnchor lib s))),
              js_div (item_baseScale (items s r))
                (vz (getWorldScale lib (objects s) (getHandAnchor lib s))))"
    and "item_object (items s r) \<noteq> getHandAnchor lib s \<Longrightarrow>
           obj_parent (objects (tryInteract lib s) (item_object (items s r)))
             = Some (getHandAnchor lib s)"
  using assms by (simp_all add: tryInteract_def Let_def add_child_def modify_def)

section \<open>Proximity correctness\<close>

text \<open>
  C1, as amended. Both queries return none exactly when no candidate is nearer than
  \<open>maxDistance\<close> (a candidate exactly at that distance does not count). Otherwise they
  return a candidate of the list that is nearer than \<open>maxDistance\<close> and such that no
  candidate is strictly nearer; among several candidates at that least distance it is the
  first in iteration order, so it is strictly nearer only than the candidates before it.
\<close>

theorem nearest_is_first_minimal:
  "(findNearestTrash lib s pos maxDistance = None
      \<longleftrightarrow> (\<forall>c\<in>set (trashItems s). maxDistance \<le> trashDist lib s pos c))
   \<and> (\<forall>r. findNearestTrash lib s pos maxDistance = Some r \<longrightarrow>
         r \<in> set (trashItems s) \<and> trashDist lib s pos r < maxDistance
         \<and> (\<forall>c\<in>set (trashItems s). trashDist lib s pos r \<le> trashDist lib s pos c)
         \<and> (\<exists>pre post. trashItems s = pre @ r # post
               \<and> (\<forall>c\<in>set pre. trashDist lib s pos r < trashDist lib s pos c)))
   \<and> (findNearestBin lib s pos maxDistance = None
      \<longleftrightarrow> (\<forall>c\<in>set (bins s). maxDistance \<le> binDist lib s pos c))
   \<and> (\<forall>b. findNearestBin lib s pos maxDistance = Some b \<longrightarrow>
         b \<in> set (bins s) \<and> binDist lib s pos b < maxDistance
         \<and> (\<forall>c\<in>set (bins s). binDist lib s pos b \<le> binDist lib s pos c)
         \<and> (\<exists>pre post. bins s = pre @ b # post
               \<and> (\<forall>c\<in>set pre. binDist lib s pos b < binDist lib s pos c)))"
  unfolding findNearestTrash_def findNearestBin_def
  using scanNearest_first [of "trashDist lib s pos" "trashItems s" maxDistance]
    scanNearest_first [of "binDist lib s pos" "bins s" maxDistance]
  by (simp add: scanNearest_None)

theorem nearest_is_first_minimal_witness:
  "findNearestTrash exampleLib exampleGame (Vector3 0 0 150) pickupDistance = Some 10
   \<and> trashDist exampleLib exampleGame (Vector3 0 0 150) 10 < pickupDistance
   \<and> trashDist exampleLib exampleGame (Vector3 0 0 150) 10
         \<le> trashDist exampleLib exampleGame (Vector3 0 0 150) 14
   \<and> findNearestBin exampleLib exampleGame (Vector3 0 0 0) binDistance = None
   \<and> binDistance
         \<le> binDist exampleLib exampleGame (Vector3 0 0 0) \<lparr>bin_object = 31, bin_type = general\<rparr>"
proof -
  have t: "findNearestTrash exampleLib exampleGame (Vector3 0 0 150) pickupDistance = Some 10"
    by (simp add: findNearestTrash_def example_defs)
  have b: "findNearestBin exampleLib exampleGame (Vector3 0 0 0) binDistance = None"
    by (simp add: findNearestBin_def example_defs)
  have m: "(14::nat) \<in> set (trashItems exampleGame)"
    "\<lparr>bin_object = 31, bin_type = general\<rparr> \<in> set (bins exampleGame)"
    by (simp_all add: exampleGame_def)
  from nearest_is_first_minimal
    [of exampleLib exampleGame "Vector3 0 0 150" pickupDistance] t m(1)
  have "trashDist exampleLib exampleGame (Vector3 0 0 150) 10 < pickupDistance
    \<and> trashDist exampleLib exampleGame (Vector3 0 0 150) 10
         \<le> trashDist exampleLib exampleGame (Vector3 0 0 150) 14"
    by blast
  moreover from nearest_is_first_minimal
    [of exampleLib exampleGame "Vector3 0 0 0" binDistance] b m(2)
  have "binDistance
         \<le> binDist exampleLib exampleGame (Vector3 0 0 0) \<lparr>bin_object = 31, bin_type = general\<rparr>"
    by blast
  ultimately show ?thesis using t b by blast
qed

text \<open>
  The claim as worded asks for a strictly minimal distance. Two floor items at the same
  distance from the player refute that reading: the query returns the first of them,
  whose distance is not strictly below the other's.
\<close>

theorem nearest_not_strictly_minimal:
  "findNearestTrash exampleLib exampleGame (Vector3 0 0 150) pickupDistance = Some 10
   \<and> 11 \<in> set (trashItems exampleGame) \<and> (11::nat) \<noteq> 10
   \<and> \<not> trashDist exampleLib exampleGame (Vector3 0 0 150) 10
         < trashDist exampleLib exampleGame (Vector3 0 0 150) 11"
  by (simp add: findNearestTrash_def example_defs)

section \<open>The carry slot and the floor set\<close>

text \<open>
  C2. Start with nothing carried and no item twice on the floor. Then after any sequence
  of key, interact and frame events the floor list still holds no item twice and only
  items that were spawned on the floor, and the carry slot is either empty or holds one
  of those spawned items, which is then absent from the floor list.
\<close>

theorem carry_slot_and_floor_exclusive:
  assumes "carryingItem s0 = None" and "distinct (trashItems s0)"
  shows "distinct (trashItems (run lib s0 evs))
    \<and> set (trashItems (run lib s0 evs)) \<subseteq> set (trashItems s0)
    \<and> (\<forall>c. carryingItem (run lib s0 evs) = Some c \<longrightarrow>
          c \<in> set (trashItems s0) \<and> c \<notin> set (trashItems (run lib s0 evs)))"
proof -
  have "registry_ok s0" using assms by (simp add: registry_ok_def)
  then have ok: "registry_ok (run lib s0 evs)" by (rule run_registry_ok)
  have "held (run lib s0 evs) \<subseteq> held s0" by (rule run_held)
  then have sub: "held (run lib s0 evs) \<subseteq> set (trashItems s0)"
    using assms(1) by (simp add: held_def)
  from ok sub show ?thesis by (auto simp: registry_ok_def held_def)
qed

theorem carry_slot_and_floor_exclusive_witness:
  "carryingItem exampleGame = None \<and> distinct (trashItems exampleGame)
   \<and> carryingItem (run exampleLib exampleGame [Interact, Tick (1 / 60)]) = Some 10
   \<and> 10 \<in> set (trashItems exampleGame)
   \<and> 10 \<notin> set (trashItems (run exampleLib exampleGame [Interact, Tick (1 / 60)]))
   \<and> distinct (trashItems (run exampleLib exampleGame [Interact, Tick (1 / 60)]))"
proof -
  have h: "carryingItem exampleGame = None" "distinct (trashItems exampleGame)"
    by (simp_all add: exampleGame_def)
  have c: "carryingItem (run exampleLib exampleGame [Interact, Tick (1 / 60)]) = Some 10"
    by (simp add: eval_defs animate_def)
  from carry_slot_and_floor_exclusive [OF h, of exampleLib "[Interact, Tick (1 / 60)]"] c h
  show ?thesis by blast
qed

section \<open>Game progress\<close>

text \<open>
  C3. While the game is playing, \<^verbatim>\<open>checkGameState\<close> sets the state to won exactly when
  the score is at least 5, otherwise to lost exactly when it is at most -2, and otherwise
  leaves it playing; it never touches the score, and on entering won or lost it zeroes
  both motion intents and pauses the walk action (if there is one). Every event that
  changes the score ends with this evaluation. From score 0 in the playing state, a run
  whose deposits are exactly five correct ones ends won with score 5, and a run whose
  deposits are exactly two incorrect ones ends lost with score -2.
\<close>

theorem game_progress_evaluation:
  "(gameState s = playing \<longrightarrow>
      gameState (checkGameState s)
        = (if 5 \<le> score s then win else if score s \<le> - 2 then lose else playing)
      \<and> score (checkGameState s) = score s
      \<and> (gameState (checkGameState s) \<noteq> playing \<longrightarrow>
            moveForward (checkGameState s) = 0 \<and> turn (checkGameState s) = 0
            \<and> walkAction (checkGameState s) = map_option (\<lambda>_. True) (walkAction s)))
   \<and> (score (step lib s ev) \<noteq> score s \<longrightarrow>
      gameState (step lib s ev)
        = (if 5 \<le> score (step lib s ev) then win
           else if score (step lib s ev) \<le> - 2 then lose else playing)
      \<and> (gameState (step lib s ev) \<noteq> playing \<longrightarrow>
            moveForward (step lib s ev) = 0 \<and> turn (step lib s ev) = 0
            \<and> walkAction (step lib s ev) = map_option (\<lambda>_. True) (walkAction s)))
   \<and> (score s = 0 \<and> gameState s = playing \<and> depositLog lib s evs = replicate 5 True \<longrightarrow>
      gameState (run lib s evs) = win \<and> score (run lib s evs) = 5)
   \<and> (score s = 0 \<and> gameState s = playing \<and> depositLog lib s evs = replicate 2 False \<longrightarrow>
      gameState (run lib s evs) = lose \<and> score (run lib s evs) = - 2)"
proof (intro conjI impI)
  assume "gameState s = playing"
  then show "gameState (checkGameState s)
        = (if 5 \<le> score s then win else if score s \<le> - 2 then lose else playing)"
    by (simp add: checkGameState_playing verdict_def)
next
  show "score (checkGameState s) = score s" by simp
next
  assume "gameState s = playing" "gameState (checkGameState s) \<noteq> playing"
  then show "moveForward (checkGameState s) = 0" "turn (checkGameState s) = 0"
    "walkAction (checkGameState s) = map_option (\<lambda>_. True) (walkAction s)"
    using checkGameState_freeze [of s] by simp_all
next
  assume ch: "score (step lib s ev) \<noteq> score s"
  then obtain ok where o: "eventOutcome lib s ev = Some ok"
    using step_no_deposit [of lib s ev] by (cases "eventOutcome lib s ev") auto
  from step_deposit [OF o] have st: "step lib s ev = tryInteract lib s"
    and d: "depositOutcome lib s = Some ok" by simp_all
  show "gameState (step lib s ev)
        = (if 5 \<le> score (step lib s ev) then win
           else if score (step lib s ev) \<le> - 2 then lose else playing)"
    using tryInteract_deposit(2) [OF d] by (simp add: st verdict_def)
  {
    assume "gameState (step lib s ev) \<noteq> playing"
    then have "gameState (tryInteract lib s) \<noteq> playing" by (simp add: st)
    from tryInteract_deposit(5) [OF d this]
    show "moveForward (step lib s ev) = 0" "turn (step lib s ev) = 0"
      "walkAction (step lib s ev) = map_option (\<lambda>_. True) (walkAction s)"
      by (simp_all add: st)
  }
next
  assume a: "score s = 0 \<and> gameState s = playing \<and> depositLog lib s evs = replicate 5 True"
  then have "depositLog lib s evs = replicate (nat (5 - score s)) True" by simp
  with a streak_correct [of s lib evs]
  show "gameState (run lib s evs) = win" "score (run lib s evs) = 5" by simp_all
next
  assume a: "score s = 0 \<and> gameState s = playing \<and> depositLog lib s evs = replicate 2 False"
  then have "depositLog lib s evs = replicate (nat (score s + 2)) False" by simp
  with a streak_wrong [of s lib evs]
  show "gameState (run lib s evs) = lose" "score (run lib s evs) = - 2" by simp_all
qed

theorem game_progress_evaluation_witness:
  "gameState (checkGameState (exampleGame\<lparr>moveForward := 1, score := 5\<rparr>)) = win
   \<and> moveForward (checkGameState (exampleGame\<lparr>moveForward := 1, score := 5\<rparr>)) = 0
   \<and> score (step exampleLib (exampleGame\<lparr>trashItems := [11, 12, 13, 14, 15, 16],
                                 carryingItem := Some 10, score := 4\<rparr>) Interact) = 5
   \<and> gameState (step exampleLib (exampleGame\<lparr>trashItems := [11, 12, 13, 14, 15, 16],
                                 carryingItem := Some 10, score := 4\<rparr>) Interact) = win
   \<and> gameState (run exampleLib exampleGame
        [Interact, Interact, Interact, Interact, Interact,
         Interact, Interact, Interact, Interact, Interact]) = win
   \<and> score (run exampleLib exampleGame
        [Interact, Interact, Interact, Interact, Interact,
         Interact, Interact, Interact, Interact, Interact]) = 5
   \<and> gameState (run exampleLib (exampleGame\<lparr>trashItems := [15, 16]\<rparr>)
        [Interact, KeyDown ''e'', KeyDown ''E'', Interact]) = lose
   \<and> score (run exampleLib (exampleGame\<lparr>trashItems := [15, 16]\<rparr>)
        [Interact, KeyDown ''e'', KeyDown ''E'', Interact]) = - 2"
proof -
  let ?w = "exampleGame\<lparr>moveForward := 1, score := 5\<rparr>"
  let ?c = "exampleGame\<lparr>trashItems := [11, 12, 13, 14, 15, 16],
                                 carryingItem := Some 10, score := 4\<rparr>"
  let ?l = "exampleGame\<lparr>trashItems := [15, 16]\<rparr>"
  let ?ten = "[Interact, Interact, Interact, Interact, Interact,
               Interact, Interact, Interact, Interact, Interact]"
  let ?four = "[Interact, KeyDown ''e'', KeyDown ''E'', Interact]"
  have w: "gameState ?w = playing" "score ?w = 5" by (simp_all add: exampleGame_def)
  have c: "score (step exampleLib ?c Interact) = 5" "score ?c = 4"
    by (simp_all add: eval_defs)
  have five: "replicate 5 True = [True, True, True, True, True]"
    and two: "replicate 2 False = [False, False]"
    by (simp_all add: numeral_eq_Suc)
  have g: "score exampleGame = 0" "gameState exampleGame = playing"
    "score ?l = 0" "gameState ?l = playing"
    by (simp_all add: exampleGame_def)
  have ten: "depositLog exampleLib exampleGame ?ten = replicate 5 True"
    unfolding five by (simp add: eval_defs)
  have four: "depositLog exampleLib ?l ?four = replicate 2 False"
    unfolding two by (simp add: eval_defs onKeyDown_def toLowerCase_def lowerChar_def)
  from game_progress_evaluation [where s = ?w] w
  have "gameState (checkGameState ?w) = win \<and> moveForward (checkGameState ?w) = 0"
    by simp
  moreover from game_progress_evaluation [where s = ?c and lib = exampleLib and ev = Interact] c
  have "gameState (step exampleLib ?c Interact) = win" by simp
  moreover from game_progress_evaluation [where s = exampleGame and lib = exampleLib and evs = ?ten]
    g ten
  have "gameState (run exampleLib exampleGame ?ten) = win
    \<and> score (run exampleLib exampleGame ?ten) = 5" by blast
  moreover from game_progress_evaluation [where s = ?l and lib = exampleLib and evs = ?four]
    g four
  have "gameState (run exampleLib ?l ?four) = lose \<and> score (run exampleLib ?l ?four) = - 2"
    by blast
  ultimately show ?thesis using c(1) by blast
qed

section \<open>Scoring\<close>

text \<open>
  C4. When the game is playing, an item is carried and the bin query finds a bin, the
  interaction changes the score by +1 if the bin's category is the item's and by -1
  otherwise, and the deposited count changes only in the first case, by +1 for that
  category. Every other event (a pickup, an interaction that finds nothing, any other
  key, a frame) leaves the score and all deposited counts unchanged; the events that do
  deposit are exactly the calls of \<^verbatim>\<open>tryInteract\<close> in such a state.
\<close>

theorem score_changes_only_on_deposit:
  "(player s = Some p \<and> gameState s = playing \<and> carryingItem s = Some r
      \<and> findNearestBin lib s (getWorldPosition lib (objects s) p) binDistance = Some b \<longrightarrow>
      score (tryInteract lib s)
        = score s + (if bin_type b = item_type (items s r) then 1 else - 1)
      \<and> recycledCount (tryInteract lib s)
        = (if bin_type b = item_type (items s r)
           then (recycledCount s)(item_type (items s r) :=
                  recycledCount s (item_type (items s r)) + 1)
           else recycledCount s)
      \<and> eventOutcome lib s Interact = Some (bin_type b = item_type (items s r)))
   \<and> (eventOutcome lib s ev = None \<longrightarrow>
      score (step lib s ev) = score s \<and> recycledCount (step lib s ev) = recycledCount s)
   \<and> (eventOutcome lib s ev \<noteq> None \<longrightarrow>
      step lib s ev = tryInteract lib s
      \<and> (\<exists>p r b. player s = Some p \<and> gameState s = playing \<and> carryingItem s = Some r
            \<and> findNearestBin lib s (getWorldPosition lib (objects s) p) binDistance = Some b))"
proof (intro conjI impI)
  assume a: "player s = Some p \<and> gameState s = playing \<and> carryingItem s = Some r
      \<and> findNearestBin lib s (getWorldPosition lib (objects s) p) binDistance = Some b"
  then have d: "depositOutcome lib s = Some (bin_type b = item_type (items s r))"
    using tryInteract_deposit_more(3) [of s p r lib b] by simp
  from tryInteract_deposit(1) [OF d]
  show "score (tryInteract lib s)
        = score s + (if bin_type b = item_type (items s r) then 1 else - 1)" .
  from a tryInteract_deposit_more(1) [of s p r lib b]
  show "recycledCount (tryInteract lib s)
        = (if bin_type b = item_type (items s r)
           then (recycledCount s)(item_type (items s r) :=
                  recycledCount s (item_type (items s r)) + 1)
           else recycledCount s)" by simp
  from d show "eventOutcome lib s Interact = Some (bin_type b = item_type (items s r))"
    by simp
next
  assume "eventOutcome lib s ev = None"
  from step_no_deposit [OF this]
  show "score (step lib s ev) = score s" "recycledCount (step lib s ev) = recycledCount s"
    by simp_all
next
  assume "eventOutcome lib s ev \<noteq> None"
  then obtain ok where o: "eventOutcome lib s ev = Some ok" by auto
  from step_deposit [OF o] show "step lib s ev = tryInteract lib s" by simp
  from step_deposit [OF o] have "depositOutcome lib s = Some ok" by simp
  then show "\<exists>p r b. player s = Some p \<and> gameState s = playing \<and> carryingItem s = Some r
            \<and> findNearestBin lib s (getWorldPosition lib (objects s) p) binDistance = Some b"
    by (auto simp: depositOutcome_def split: option.splits if_splits)
qed

theorem score_changes_only_on_deposit_witness:
  "score (tryInteract exampleLib
            (exampleGame\<lparr>trashItems := [11, 12, 13, 14, 15, 16], carryingItem := Some 10\<rparr>)) = 1
   \<and> recycledCount (tryInteract exampleLib
            (exampleGame\<lparr>trashItems := [11, 12, 13, 14, 15, 16], carryingItem := Some 10\<rparr>))
          general = 1
   \<and> score (tryInteract exampleLib
            (exampleGame\<lparr>trashItems := [10, 11, 12, 13, 14, 16], carryingItem := Some 15\<rparr>)) = - 1
   \<and> recycledCount (tryInteract exampleLib
            (exampleGame\<lparr>trashItems := [10, 11, 12, 13, 14, 16], carryingItem := Some 15\<rparr>))
          organico = 0
   \<and> score (step exampleLib exampleGame Interact) = 0
   \<and> score (step exampleLib exampleGame (Tick (1 / 60))) = 0
   \<and> eventOutcome exampleLib
        (exampleGame\<lparr>trashItems := [11, 12, 13, 14, 15, 16], carryingItem := Some 10\<rparr>)
        (KeyDown ''e'') \<noteq> None
   \<and> step exampleLib
        (exampleGame\<lparr>trashItems := [11, 12, 13, 14, 15, 16], carryingItem := Some 10\<rparr>)
        (KeyDown ''e'')
      = tryInteract exampleLib
        (exampleGame\<lparr>trashItems := [11, 12, 13, 14, 15, 16], carryingItem := Some 10\<rparr>)"
proof -
  let ?c = "exampleGame\<lparr>trashItems := [11, 12, 13, 14, 15, 16], carryingItem := Some 10\<rparr>"
  let ?o = "exampleGame\<lparr>trashItems := [10, 11, 12, 13, 14, 16], carryingItem := Some 15\<rparr>"
  let ?b = "\<lparr>bin_object = 31, bin_type = general\<rparr>"
  have c: "player ?c = Some 2 \<and> gameState ?c = playing \<and> carryingItem ?c = Some 10
      \<and> findNearestBin exampleLib ?c (getWorldPosition exampleLib (objects ?c) 2) binDistance
          = Some ?b"
    by (simp add: eval_defs)
  have o: "player ?o = Some 2 \<and> gameState ?o = playing \<and> carryingItem ?o = Some 15
      \<and> findNearestBin exampleLib ?o (getWorldPosition exampleLib (objects ?o) 2) binDistance
          = Some ?b"
    by (simp add: eval_defs)
  have v: "score ?c = 0" "score ?o = 0" "recycledCount ?c = (\<lambda>t. 0)"
    "recycledCount ?o = (\<lambda>t. 0)" "item_type (items ?c 10) = general"
    "item_type (items ?o 15) = organico" "score exampleGame = 0"
    by (simp_all add: exampleGame_def example_items)
  have n: "eventOutcome exampleLib exampleGame Interact = None"
    "eventOutcome exampleLib exampleGame (Tick (1 / 60)) = None"
    by (simp_all add: eval_defs)
  have e: "eventOutcome exampleLib ?c (KeyDown ''e'') \<noteq> None"
    by (simp add: eval_defs toLowerCase_def lowerChar_def)
  from score_changes_only_on_deposit
    [where s = ?c and lib = exampleLib and p = 2 and r = 10 and b = ?b] c v
  have "score (tryInteract exampleLib ?c) = 1
    \<and> recycledCount (tryInteract exampleLib ?c) general = 1" by simp
  moreover from score_changes_only_on_deposit
    [where s = ?o and lib = exampleLib and p = 2 and r = 15 and b = ?b] o v
  have "score (tryInteract exampleLib ?o) = - 1
    \<and> recycledCount (tryInteract exampleLib ?o) organico = 0" by simp
  moreover from score_changes_only_on_deposit
    [where s = exampleGame and lib = exampleLib and ev = Interact] n(1) v(7)
  have "score (step exampleLib exampleGame Interact) = 0" by simp
  moreover from score_changes_only_on_deposit
    [where s = exampleGame and lib = exampleLib and ev = "Tick (1 / 60)"] n(2) v(7)
  have "score (step exampleLib exampleGame (Tick (1 / 60))) = 0" by simp
  moreover from score_changes_only_on_deposit
    [where s = ?c and lib = exampleLib and ev = "KeyDown ''e''"] e
  have "step exampleLib ?c (KeyDown ''e'') = tryInteract exampleLib ?c" by blast
  ultimately show ?thesis using e by blast
qed

section \<open>Terminal states\<close>

text \<open>
  C5. Once the game is won or lost, no sequence of key-down, key-up, interact and frame
  events changes anything of the game: the state after the run is the state before it, in
  particular the game state, the score, the carry slot and every object of the scene
  (so also the position and heading of the player).
\<close>

theorem terminal_state_is_absorbing:
  assumes "gameState s \<noteq> playing"
  shows "run lib s evs = s
    \<and> gameState (run lib s evs) = gameState s \<and> score (run lib s evs) = score s
    \<and> carryingItem (run lib s evs) = carryingItem s
    \<and> objects (run lib s evs) = objects s"
  using run_terminal [OF assms, of lib evs] by simp

theorem terminal_state_is_absorbing_witness:
  "gameState (exampleGame\<lparr>score := 5, gameState := win\<rparr>) \<noteq> playing
   \<and> run exampleLib (exampleGame\<lparr>score := 5, gameState := win\<rparr>)
        [KeyDown ''w'', Tick (1 / 60), Interact, KeyDown ''e'', KeyUp ''w'']
      = exampleGame\<lparr>score := 5, gameState := win\<rparr>"
proof -
  have h: "gameState (exampleGame\<lparr>score := 5, gameState := win\<rparr>) \<noteq> playing" by simp
  from terminal_state_is_absorbing [OF h] h show ?thesis by blast
qed

section \<open>Depositing in the wrong bin\<close>

text \<open>
  C6. When the game is playing, an item is carried and the bin query finds a bin of
  another category, the interaction detaches the item's object from its parent, lowers
  the score by exactly 1, leaves every deposited count and the floor list unchanged and
  empties the carry slot. Whatever events follow, nothing is ever added to the floor
  list; so the item, which was not on the floor while it was carried, is never on the
  floor and never carried again.
\<close>

theorem wrong_bin_discards_item:
  assumes "player s = Some p" and "gameState s = playing" and "carryingItem s = Some r"
    and "findNearestBin lib s (getWorldPosition lib (objects s) p) binDistance = Some b"
    and "bin_type b \<noteq> item_type (items s r)"
  shows "obj_parent (objects (tryInteract lib s) (item_object (items s r))) = None
    \<and> score (tryInteract lib s) = score s - 1
    \<and> recycledCount (tryInteract lib s) = recycledCount s
    \<and> carryingItem (tryInteract lib s) = None
    \<and> trashItems (tryInteract lib s) = trashItems s
    \<and> (\<forall>evs. set (trashItems (run lib (tryInteract lib s) evs)) \<subseteq> set (trashItems s))
    \<and> (r \<notin> set (trashItems s) \<longrightarrow>
         (\<forall>evs. r \<notin> set (trashItems (run lib (tryInteract lib s) evs))
            \<and> carryingItem (run lib (tryInteract lib s) evs) \<noteq> Some r))"
proof -
  from tryInteract_deposit_more [OF assms(1,2,3,4)] assms(5)
  have cnt: "recycledCount (tryInteract lib s) = recycledCount s"
    and obj: "objects (tryInteract lib s) = detach (objects s) (item_object (items s r))"
    and d: "depositOutcome lib s = Some False" by simp_all
  from tryInteract_deposit(1,3,4) [OF d]
  have sc: "score (tryInteract lib s) = score s - 1"
    and ca: "carryingItem (tryInteract lib s) = None"
    and fl: "trashItems (tryInteract lib s) = trashItems s" by simp_all
  have "held (tryInteract lib s) = set (trashItems s)" using ca fl by (simp add: held_def)
  then have later: "\<forall>evs. held (run lib (tryInteract lib s) evs) \<subseteq> set (trashItems s)"
    using run_held [of lib "tryInteract lib s"] by simp
  then have sub: "\<forall>evs. set (trashItems (run lib (tryInteract lib s) evs)) \<subseteq> set (trashItems s)"
    by (simp add: held_def)
  have gone: "r \<notin> set (trashItems s) \<longrightarrow>
         (\<forall>evs. r \<notin> set (trashItems (run lib (tryInteract lib s) evs))
            \<and> carryingItem (run lib (tryInteract lib s) evs) \<noteq> Some r)"
    using later by (auto simp: held_def)
  have "obj_parent (objects (tryInteract lib s) (item_object (items s r))) = None"
    by (simp add: obj detach_def modify_def)
  with sc cnt ca fl sub gone show ?thesis by blast
qed

theorem wrong_bin_discards_item_witness:
  "score (tryInteract exampleLib
            (exampleGame\<lparr>trashItems := [10, 11, 12, 13, 14, 16], carryingItem := Some 15\<rparr>)) = - 1
   \<and> recycledCount (tryInteract exampleLib
            (exampleGame\<lparr>trashItems := [10, 11, 12, 13, 14, 16], carryingItem := Some 15\<rparr>))
        = (\<lambda>t. 0)
   \<and> carryingItem (tryInteract exampleLib
            (exampleGame\<lparr>trashItems := [10, 11, 12, 13, 14, 16], carryingItem := Some 15\<rparr>)) = None
   \<and> obj_parent (objects (tryInteract exampleLib
            (exampleGame\<lparr>trashItems := [10, 11, 12, 13, 14, 16], carryingItem := Some 15\<rparr>)) 25)
        = None
   \<and> 15 \<notin> set (trashItems (run exampleLib (tryInteract exampleLib
            (exampleGame\<lparr>trashItems := [10, 11, 12, 13, 14, 16], carryingItem := Some 15\<rparr>))
            [Interact, Tick (1 / 60), Interact]))"
proof -
  let ?o = "exampleGame\<lparr>trashItems := [10, 11, 12, 13, 14, 16], carryingItem := Some 15\<rparr>"
  let ?b = "\<lparr>bin_object = 31, bin_type = general\<rparr>"
  have h: "player ?o = Some 2" "gameState ?o = playing" "carryingItem ?o = Some 15"
    "findNearestBin exampleLib ?o (getWorldPosition exampleLib (objects ?o) 2) binDistance
       = Some ?b"
    "bin_type ?b \<noteq> item_type (items ?o 15)"
    by (simp_all add: eval_defs)
  have v: "score ?o = 0" "recycledCount ?o = (\<lambda>t. 0)" "item_object (items ?o 15) = 25"
    by (simp_all add: exampleGame_def example_items)
  have n: "15 \<notin> set (trashItems ?o)" by simp
  note w = wrong_bin_discards_item [OF h]
  from w v have "score (tryInteract exampleLib ?o) = - 1"
    and "recycledCount (tryInteract exampleLib ?o) = (\<lambda>t. 0)"
    and "carryingItem (tryInteract exampleLib ?o) = None"
    and "obj_parent (objects (tryInteract exampleLib ?o) 25) = None"
    by simp_all
  moreover from w n
  have "15 \<notin> set (trashItems (run exampleLib (tryInteract exampleLib ?o)
                   [Interact, Tick (1 / 60), Interact]))"
    by blast
  ultimately show ?thesis by blast
qed

section \<open>Interacting with no bin in range\<close>

text \<open>
  C7. When the game is playing, an item is carried and every bin is at least the bin
  distance away from the player's world position, the interaction changes nothing but
  the HUD message, which then says that no bin is near: carry slot, score, deposited
  counts, game state and floor list are as before.
\<close>

theorem no_bin_in_range_changes_only_hud:
  assumes "player s = Some p" and "gameState s = playing" and "carryingItem s = Some r"
    and "\<forall>b\<in>set (bins s). binDistance \<le> binDist lib s (getWorldPosition lib (objects s) p) b"
  shows "tryInteract lib s = s\<lparr>hudMessage := NoBinNearby\<rparr>
    \<and> carryingItem (tryInteract lib s) = carryingItem s
    \<and> score (tryInteract lib s) = score s
    \<and> recycledCount (tryInteract lib s) = recycledCount s
    \<and> gameState (tryInteract lib s) = gameState s
    \<and> trashItems (tryInteract lib s) = trashItems s"
proof -
  have "findNearestBin lib s (getWorldPosition lib (objects s) p) binDistance = None"
    using assms(4) by (simp add: findNearestBin_None_iff)
  with assms(1,2,3) have "tryInteract lib s = s\<lparr>hudMessage := NoBinNearby\<rparr>"
    by (simp add: tryInteract_def Let_def)
  then show ?thesis by simp
qed

theorem no_bin_in_range_changes_only_hud_witness:
  "tryInteract exampleLib
     (exampleGame\<lparr>trashItems := [11, 12, 13, 14, 15, 16],
                  bins := [\<lparr>bin_object = 30, bin_type = organico\<rparr>,
                           \<lparr>bin_object = 32, bin_type = reciclable\<rparr>],
                  carryingItem := Some 10\<rparr>)
   = exampleGame\<lparr>trashItems := [11, 12, 13, 14, 15, 16],
                  bins := [\<lparr>bin_object = 30, bin_type = organico\<rparr>,
                           \<lparr>bin_object = 32, bin_type = reciclable\<rparr>],
                  carryingItem := Some 10, hudMessage := NoBinNearby\<rparr>"
proof -
  let ?s = "exampleGame\<lparr>trashItems := [11, 12, 13, 14, 15, 16],
                  bins := [\<lparr>bin_object = 30, bin_type = organico\<rparr>,
                           \<lparr>bin_object = 32, bin_type = reciclable\<rparr>],
                  carryingItem := Some 10\<rparr>"
  have h: "player ?s = Some 2" "gameState ?s = playing" "carryingItem ?s = Some 10"
    "\<forall>b\<in>set (bins ?s).
       binDistance \<le> binDist exampleLib ?s (getWorldPosition exampleLib (objects ?s) 2) b"
    by (simp_all add: exampleLib_def exampleGame_def example_objects exampleObject_def
        binDistance_def binDist_def distanceTo_ge distanceToSquared_def)
  from no_bin_in_range_changes_only_hud [OF h] show ?thesis by simp
qed

section \<open>Bounds on the score\<close>

text \<open>
  C9. From any state with score 0 in which the game is playing, every sequence of key,
  interact and frame events leads to a state whose score lies between -2 and 5.
\<close>

theorem score_stays_within_thresholds:
  assumes "score s0 = 0" and "gameState s0 = playing"
  shows "- 2 \<le> score (run lib s0 evs) \<and> score (run lib s0 evs) \<le> 5"
proof -
  have "score_ok s0" using assms by (simp add: score_ok_def)
  then have "score_ok (run lib s0 evs)" by (rule run_score_ok)
  then show ?thesis by (simp add: score_ok_def)
qed

theorem score_stays_within_thresholds_witness:
  "score exampleGame = 0 \<and> gameState exampleGame = playing
   \<and> - 2 \<le> score (run exampleLib exampleGame [Interact, KeyDown ''e'', KeyDown ''w'', Tick 1])
   \<and> score (run exampleLib exampleGame [Interact, KeyDown ''e'', KeyDown ''w'', Tick 1]) \<le> 5"
proof -
  have h: "score exampleGame = 0" "gameState exampleGame = playing"
    by (simp_all add: exampleGame_def)
  from score_stays_within_thresholds [OF h] h show ?thesis by blast
qed

section \<open>Interacting before the player has loaded\<close>

text \<open>
  C10. While the player model is unset, \<^verbatim>\<open>tryInteract\<close> returns the state it was given,
  whether it is called directly or through the key handler: carry slot, score, deposited
  counts, floor list, bins, game state and HUD message are all unchanged.
\<close>

theorem interact_without_player_is_noop:
  assumes "player s = None"
  shows "tryInteract lib s = s \<and> step lib s Interact = s
    \<and> onKeyDown lib ''e'' s = s \<and> onKeyDown lib ''E'' s = s"
  using assms by (simp add: tryInteract_def onKeyDown_def toLowerCase_def lowerChar_def Let_def)

theorem interact_without_player_is_noop_witness:
  "player (exampleGame\<lparr>player := None\<rparr>) = None
   \<and> tryInteract exampleLib (exampleGame\<lparr>player := None\<rparr>) = exampleGame\<lparr>player := None\<rparr>"
proof -
  have h: "player (exampleGame\<lparr>player := None\<rparr>) = None" by simp
  from interact_without_player_is_noop [OF h] h show ?thesis by blast
qed

end
